theory Spec2Isabelle
  imports Complex_Main "HOL-Library.Multiset"
begin

section \<open>Device records and classification\<close>

text \<open>
  A detected device is the dictionary built by \<open>detect_devices\<close>: the keys
  \<open>'device'\<close>, \<open>'name'\<close>, \<open>'size_gb'\<close> and \<open>'model'\<close>. The mock variant's
  sample devices carry one more key, \<open>'serial'\<close>, so its record extends this one and
  the functions below are written over the extensible record.

  \<open>size_gb\<close> is a Python float. It is always finite here, so it denotes a rational
  number and the comparisons \<open><\<close>, \<open>>\<close> and the ordering used by \<open>sorted\<close> are
  those of the rationals.
\<close>

record device_info =
  device :: string
  name :: string
  size_gb :: rat
  model :: string

record mock_device_info = device_info +
  serial :: string

text \<open>
  \<open>SDCardCloner.identify_source_dest\<close> (sdcc_cloner.py). Python's \<open>sorted\<close> is a
  stable sort by the key, as \<open>sort_key\<close> is. The two log lines are not modelled.
\<close>

definition identify_source_dest ::
  "'a device_info_scheme list \<Rightarrow> 'a device_info_scheme option \<times> 'a device_info_scheme option" where
  "identify_source_dest devices =
     (if length devices < 2 then (None, None)
      else let sorted_devices = sort_key size_gb devices;
               source = hd sorted_devices;
               dest = last sorted_devices
           in (Some source, Some dest))"

text \<open>
  \<open>HeadlessCloner.identify_source_dest\<close> (cloner_mock.py): the same selection, but
  the device paths are returned instead of the dictionaries.
\<close>

definition mock_identify_source_dest ::
  "'a device_info_scheme list \<Rightarrow> string option \<times> string option" where
  "mock_identify_source_dest devices =
     (if length devices < 2 then (None, None)
      else let sorted_devs = sort_key size_gb devices;
               source = device (hd sorted_devs);
               dest = device (last sorted_devs)
           in (Some source, Some dest))"

text \<open>\<open>SDCardCloner.validate_clone\<close> (sdcc_cloner.py); the log line is not modelled.\<close>

definition validate_clone :: "'a device_info_scheme \<Rightarrow> 'b device_info_scheme \<Rightarrow> bool" where
  "validate_clone source dest =
     (if size_gb source > size_gb dest then False else True)"

section \<open>Strings as Python reads them\<close>

text \<open>
  \<open>str.strip()\<close>, \<open>str.lower()\<close>, \<open>str.startswith\<close> and \<open>int(str)\<close> on ASCII text.
  Whitespace is the ASCII whitespace Python strips: the codes 9 to 13, 28 to 31 and 32.
\<close>

definition is_space :: "char \<Rightarrow> bool" where
  "is_space c = (let n = (of_char c :: nat) in (9 \<le> n \<and> n \<le> 13) \<or> (28 \<le> n \<and> n \<le> 32))"

definition py_strip :: "string \<Rightarrow> string" where
  "py_strip s = rev (dropWhile is_space (rev (dropWhile is_space s)))"

definition py_lower_char :: "char \<Rightarrow> char" where
  "py_lower_char c =
     (let n = (of_char c :: nat) in if 65 \<le> n \<and> n \<le> 90 then char_of (n + 32) else c)"

definition py_lower :: "string \<Rightarrow> string" where
  "py_lower s = map py_lower_char s"

definition startswith :: "string \<Rightarrow> string \<Rightarrow> bool" where
  "startswith s p = (take (length p) s = p)"

definition endswith :: "string \<Rightarrow> string \<Rightarrow> bool" where
  "endswith s p = (length p \<le> length s \<and> drop (length s - length p) s = p)"

definition is_digit :: "char \<Rightarrow> bool" where
  "is_digit c = (let n = (of_char c :: nat) in 48 \<le> n \<and> n \<le> 57)"

definition digit_val :: "char \<Rightarrow> nat" where
  "digit_val c = of_char c - 48"

text \<open>
  The digits of a decimal literal as \<open>int()\<close> accepts them: one underscore may stand
  between two digits. \<open>None\<close> is Python's \<open>ValueError\<close>.
\<close>

fun digits_acc :: "nat \<Rightarrow> string \<Rightarrow> nat option" where
  "digits_acc acc [] = Some acc"
| "digits_acc acc (c # cs) =
     (if is_digit c then digits_acc (10 * acc + digit_val c) cs
      else if c = CHR ''_'' then
        (case cs of
           [] \<Rightarrow> None
         | d # ds \<Rightarrow> if is_digit d then digits_acc acc cs else None)
      else None)"

definition py_digits :: "string \<Rightarrow> nat option" where
  "py_digits s =
     (case s of
        [] \<Rightarrow> None
      | c # cs \<Rightarrow> if is_digit c then digits_acc 0 s else None)"

definition py_int :: "string \<Rightarrow> int option" where
  "py_int s =
     (case py_strip s of
        [] \<Rightarrow> None
      | c # cs \<Rightarrow>
          if c = CHR ''-'' then map_option (\<lambda>n. - int n) (py_digits cs)
          else if c = CHR ''+'' then map_option int (py_digits cs)
          else map_option int (py_digits (c # cs)))"

text \<open>
  \<open>round(x, 2)\<close>: the nearest multiple of one hundredth, a tie going to the even
  hundredth. The value rounded is the exact value of the float \<open>x\<close>; the result stands
  for the float nearest to that decimal, and two such floats compare as their decimals do.
\<close>

definition py_round2 :: "rat \<Rightarrow> rat" where
  "py_round2 x =
     (let y = x * 100;
          f = \<lfloor>y\<rfloor>;
          r = y - of_int f;
          k = (if r < 1 / 2 then f else if r > 1 / 2 then f + 1
               else if even f then f else f + 1)
      in of_int k / 100)"

section \<open>Device detection (sdcc\_cloner.py)\<close>

text \<open>
  What \<open>detect_devices\<close> reads. An entry of \<open>/sys/block\<close> has a name, may or may not
  be a directory, and holds the text of its \<open>size\<close> file (\<open>None\<close>: reading it raises)
  and, when the file \<open>device/model\<close> exists, its text (reading an existing model file
  is taken to succeed). \<open>/dev/disk/by-id\<close> is a list of
  links in directory order, each with its name and the path it resolves to.
  \<open>sys_block = None\<close> stands for a \<open>/sys/block\<close> that cannot be listed.
\<close>

record block_entry =
  entry_name :: string
  is_dir :: bool
  size_text :: "string option"
  model_text :: "string option"

record sysfs =
  sys_block :: "block_entry list option"
  by_id :: "(string \<times> string) list"

text \<open>
  \<open>Path('/dev/disk/by-id/').glob(f'*{path.name}')\<close>: kernel names hold no glob
  metacharacter, so the pattern matches the links whose name ends with the kernel name.
\<close>

definition glob_by_id :: "sysfs \<Rightarrow> string \<Rightarrow> (string \<times> string) list" where
  "glob_by_id fs kname = filter (\<lambda>(link, target). endswith link kname) (by_id fs)"

text \<open>
  The body of the loop of \<open>detect_devices\<close> for one entry: \<open>None\<close> when the entry is
  skipped (by a \<open>continue\<close>, or by the inner \<open>except\<close> when the size cannot be read or
  parsed), otherwise the dictionary appended. The source's locals \<open>device\<close>, \<open>size\<close>
  and \<open>size_gb\<close> are \<open>dev\<close>, \<open>sectors\<close> and \<open>gb\<close> here. The quotient
  \<open>size * 512 / 1024**3\<close> is computed exactly here. The source computes it in floating
  point, which is exact for every sector count from 0 up to, not including, \<open>2^53\<close>,
  since the divisor is a power of two; from \<open>2^53\<close> sectors on the source may record a
  neighbouring size, and past the range of a float it raises \<open>OverflowError\<close> and skips
  the device. What is proved of the recorded size is proved for sector counts below
  \<open>2^53\<close> only.
\<close>

definition detect_entry :: "sysfs \<Rightarrow> block_entry \<Rightarrow> device_info option" where
  "detect_entry fs e =
     (if \<not> is_dir e \<or> startswith (entry_name e) ''loop'' \<or> startswith (entry_name e) ''ram''
      then None
      else let dev = ''/dev/'' @ entry_name e in
        if startswith (entry_name e) ''mmcblk0'' then None
        else case size_text e of
          None \<Rightarrow> None
        | Some txt \<Rightarrow>
            (case py_int (py_strip txt) of
               None \<Rightarrow> None
             | Some sectors \<Rightarrow>
                 let gb = of_int (sectors * 512) / (1024 ^ 3);
                     model = (case model_text e of None \<Rightarrow> ''Unknown'' | Some m \<Rightarrow> py_strip m);
                     by_id = glob_by_id fs (entry_name e);
                     device_path = (case by_id of [] \<Rightarrow> dev | (link, target) # _ \<Rightarrow> target)
                 in Some \<lparr>device = device_path, name = entry_name e,
                           size_gb = py_round2 gb, model = model\<rparr>))"

definition detect_devices :: "sysfs \<Rightarrow> device_info list" where
  "detect_devices fs =
     (case sys_block fs of
        None \<Rightarrow> []
      | Some entries \<Rightarrow> List.map_filter (detect_entry fs) entries)"

section \<open>The operating system as the programs see it\<close>

text \<open>
  Every call that leaves the program is an \<open>action\<close>: \<open>subprocess.run\<close> with an
  argument vector or with a shell command line, \<open>subprocess.Popen\<close> followed by reading
  the child's output to its end and \<open>wait()\<close>, and the calls \<open>os.makedirs\<close>,
  \<open>os.rmdir\<close> and \<open>os.sync\<close>. The environment answers each action, knowing the actions
  answered so far: the call raises, or the process exits with a return code and the text
  it wrote. \<open>Error c\<close> is an exception of class \<open>c\<close> other than
  \<open>CalledProcessError\<close>; only exceptions that \<open>except Exception\<close> catches are modelled.
\<close>

datatype exn = CalledProcessError int "string list" | Error string

datatype action =
    Run "string list"
  | Run_shell string
  | Popen_wait "string list"
  | Makedirs string
  | Rmdir string
  | Sync

datatype outcome = Raised exn | Exited int string

text \<open>
  The lines the programs log or print when the operator state changes. The lines that
  only report values (the device listing, the command line, the copy tool's progress)
  and those written inside \<open>detect_devices\<close>, \<open>identify_source_dest\<close> and
  \<open>validate_clone\<close> are not recorded.
\<close>

datatype log_line =
    Button_pressed
  | No_devices_found
  | Could_not_identify
  | Starting_clone string string
  | Clone_completed
  | Clone_failed exn
  | Error_logged exn
  | Validation_failed string
  | Need_2_devices nat

record environment =
  respond :: "(action \<times> outcome) list \<Rightarrow> action \<Rightarrow> outcome"
  ismount :: "string \<Rightarrow> bool"
  dev_glob :: "string \<Rightarrow> string list"

text \<open>
  The state the programs change: the actions performed with their outcomes, the calls of
  \<open>GPIO.output\<close> and the lines logged, each oldest first.
\<close>

record machine =
  history :: "(action \<times> outcome) list"
  gpio :: "(nat \<times> bool) list"
  journal :: "log_line list"

definition initial :: machine where
  "initial = \<lparr>history = [], gpio = [], journal = []\<rparr>"

text \<open>
  A statement runs on a machine and either completes (\<open>None\<close>) or raises; the machine
  it leaves behind is returned in both cases.
\<close>

type_synonym stmt = "machine \<Rightarrow> exn option \<times> machine"

definition skip :: stmt where
  "skip m = (None, m)"

definition seq :: "stmt \<Rightarrow> stmt \<Rightarrow> stmt" where
  "seq f g m = (case f m of (Some e, m') \<Rightarrow> (Some e, m') | (None, m') \<Rightarrow> g m')"

text \<open>
  \<open>try: f finally: g\<close>. The \<open>finally\<close> block runs on every path; an exception it
  raises replaces the one of the \<open>try\<close> block.
\<close>

definition try_finally :: "stmt \<Rightarrow> stmt \<Rightarrow> stmt" where
  "try_finally f g m =
     (case f m of (r, m') \<Rightarrow>
        (case g m' of (Some e', m'') \<Rightarrow> (Some e', m'') | (None, m'') \<Rightarrow> (r, m'')))"

definition perform :: "environment \<Rightarrow> action \<Rightarrow> machine \<Rightarrow> outcome \<times> machine" where
  "perform env a m =
     (let r = respond env (history m) a in (r, m\<lparr>history := history m @ [(a, r)]\<rparr>))"

text \<open>\<open>subprocess.run(argv, check=True)\<close>.\<close>

definition run_checked :: "environment \<Rightarrow> string list \<Rightarrow> stmt" where
  "run_checked env argv m =
     (case perform env (Run argv) m of
        (Raised e, m') \<Rightarrow> (Some e, m')
      | (Exited rc out, m') \<Rightarrow>
          if rc \<noteq> 0 then (Some (CalledProcessError rc argv), m') else (None, m'))"

text \<open>\<open>subprocess.run(cmd, shell=True, check=True)\<close>.\<close>

definition run_shell_checked :: "environment \<Rightarrow> string \<Rightarrow> stmt" where
  "run_shell_checked env cmd m =
     (case perform env (Run_shell cmd) m of
        (Raised e, m') \<Rightarrow> (Some e, m')
      | (Exited rc out, m') \<Rightarrow>
          if rc \<noteq> 0 then (Some (CalledProcessError rc [cmd]), m') else (None, m'))"

text \<open>\<open>os.makedirs(path, exist_ok=True)\<close>, \<open>os.rmdir(path)\<close> and \<open>os.sync()\<close>.\<close>

definition os_call :: "environment \<Rightarrow> action \<Rightarrow> stmt" where
  "os_call env a m =
     (case perform env a m of
        (Raised e, m') \<Rightarrow> (Some e, m')
      | (Exited rc out, m') \<Rightarrow> (None, m'))"

text \<open>\<open>self.log\<close> of the production program and \<open>print\<close> of the mock, for the lines recorded.\<close>

definition write_log :: "log_line \<Rightarrow> machine \<Rightarrow> machine" where
  "write_log l m = m\<lparr>journal := journal m @ [l]\<rparr>"

section \<open>GPIO\<close>

definition BTN_PIN :: nat where "BTN_PIN = 17"
definition LED_READY :: nat where "LED_READY = 22"
definition LED_CLONING :: nat where "LED_CLONING = 23"
definition LED_DONE :: nat where "LED_DONE = 24"

text \<open>
  \<open>GPIO.output(pin, state)\<close>. The four pins are set up in both programs, so the mock's
  test \<open>pin in self.pins\<close> holds for each of them.
\<close>

definition gpio_output :: "nat \<Rightarrow> bool \<Rightarrow> machine \<Rightarrow> machine" where
  "gpio_output pin state m = m\<lparr>gpio := gpio m @ [(pin, state)]\<rparr>"

text \<open>
  The level of a pin after a sequence of outputs: the state last written to it, low when
  nothing was written (both programs start with the three lights off).
\<close>

definition level :: "(nat \<times> bool) list \<Rightarrow> nat \<Rightarrow> bool" where
  "level outputs pin =
     (case filter (\<lambda>(p, v). p = pin) (rev outputs) of [] \<Rightarrow> False | (p, v) # _ \<Rightarrow> v)"

text \<open>The lights that are on, and the lights that were on after each output in turn.\<close>

definition lit :: "(nat \<times> bool) list \<Rightarrow> nat list" where
  "lit outputs = filter (level outputs) [LED_READY, LED_CLONING, LED_DONE]"

definition lit_history :: "(nat \<times> bool) list \<Rightarrow> nat list list" where
  "lit_history outputs = map (\<lambda>n. lit (take n outputs)) [1..<Suc (length outputs)]"

text \<open>The production program's light helpers (sdcc\_cloner.py).\<close>

definition led_on :: "nat \<Rightarrow> machine \<Rightarrow> machine" where
  "led_on pin m = gpio_output pin True m"

definition led_off :: "nat \<Rightarrow> machine \<Rightarrow> machine" where
  "led_off pin m = gpio_output pin False m"

definition led_off_all :: "machine \<Rightarrow> machine" where
  "led_off_all m = fold led_off [LED_READY, LED_CLONING, LED_DONE] m"

text \<open>\<open>GPIO.input\<close> of an output pin of the real hardware reads back its level.\<close>

definition blink_ready :: "machine \<Rightarrow> machine" where
  "blink_ready m =
     (let current_state = level (gpio m) LED_READY
      in if \<not> current_state then led_on LED_READY m else led_off LED_READY m)"

text \<open>\<open>error_pattern\<close> of the production program: five flashes, then all lights off.\<close>

definition error_pattern :: "machine \<Rightarrow> machine" where
  "error_pattern m =
     led_off_all (((\<lambda>m. led_on LED_READY (led_off_all m)) ^^ 5) m)"

text \<open>
  The mock's helpers (cloner\_mock.py). \<open>GPIOMock.input\<close> answers \<open>HIGH\<close> for every pin
  but the button, so \<open>blink_ready\<close> writes \<open>not HIGH\<close>.
\<close>

definition mock_blink_ready :: "machine \<Rightarrow> machine" where
  "mock_blink_ready m = gpio_output LED_READY (\<not> True) m"

definition mock_error_pattern :: "machine \<Rightarrow> machine" where
  "mock_error_pattern m =
     ((\<lambda>m. gpio_output LED_READY False (gpio_output LED_READY True m)) ^^ 5) m"

section \<open>Validation and cloning in the mock (cloner\_mock.py)\<close>

text \<open>
  \<open>get_device_size\<close>: the bare \<open>except\<close> turns a failure to start \<open>blockdev\<close> and a
  \<open>ValueError\<close> of \<open>int\<close> into the size 0. The return code is not looked at.
\<close>

definition get_device_size :: "environment \<Rightarrow> string \<Rightarrow> machine \<Rightarrow> int \<times> machine" where
  "get_device_size env dev m =
     (case perform env (Run [''sudo'', ''blockdev'', ''--getsize64'', dev]) m of
        (Raised e, m') \<Rightarrow> (0, m')
      | (Exited rc out, m') \<Rightarrow>
          (case py_int (py_strip out) of None \<Rightarrow> (0, m') | Some n \<Rightarrow> (n, m')))"

text \<open>
  The arguments of \<open>validate_clone\<close> are what \<open>identify_source_dest\<close> returned: a path
  or \<open>None\<close>. \<open>not x\<close> holds of \<open>None\<close> and of the empty string.
\<close>

definition py_not :: "string option \<Rightarrow> bool" where
  "py_not x = (case x of None \<Rightarrow> True | Some s \<Rightarrow> s = [])"

definition mock_validate_clone ::
  "environment \<Rightarrow> string option \<Rightarrow> string option \<Rightarrow> machine \<Rightarrow> (bool \<times> string) \<times> machine" where
  "mock_validate_clone env source dest m =
     (case (source, dest) of
        (Some src, Some dst) \<Rightarrow>
          if py_not source \<or> py_not dest then ((False, ''Missing devices''), m)
          else
            (case get_device_size env src m of (source_size, m1) \<Rightarrow>
            (case get_device_size env dst m1 of (dest_size, m2) \<Rightarrow>
               if dest_size < source_size then ((False, ''Destination too small''), m2)
               else ((True, ''OK''), m2)))
      | _ \<Rightarrow> ((False, ''Missing devices''), m))"

definition get_filesystem_type :: "environment \<Rightarrow> string \<Rightarrow> machine \<Rightarrow> string \<times> machine" where
  "get_filesystem_type env dev m =
     (case perform env (Run [''sudo'', ''blkid'', ''-s'', ''TYPE'', ''-o'', ''value'', dev]) m of
        (Raised e, m') \<Rightarrow> (''unknown'', m')
      | (Exited rc out, m') \<Rightarrow> (py_lower (py_strip out), m'))"

definition raw_clone :: "environment \<Rightarrow> string \<Rightarrow> string \<Rightarrow> stmt" where
  "raw_clone env source dest m =
     (case get_device_size env source m of (sz, m1) \<Rightarrow>
        run_shell_checked env
          (''sudo dd if='' @ source @ '' of='' @ dest @ '' bs=4M status=progress'') m1)"

text \<open>The dictionary \<open>mkfs_cmd\<close> of \<open>clone_filesystem\<close>.\<close>

definition mkfs_cmd :: "string \<Rightarrow> (string \<times> string list) list" where
  "mkfs_cmd dest =
     [(''ext4'', [''mkfs.ext4'', ''-F'', dest]),
      (''vfat'', [''mkfs.vfat'', ''-F'', ''32'', dest]),
      (''fat32'', [''mkfs.vfat'', ''-F'', ''32'', dest]),
      (''ntfs'', [''mkfs.ntfs'', ''-F'', dest]),
      (''exfat'', [''mkfs.exfat'', dest])]"

text \<open>
  The \<open>try\<close> block of \<open>clone_filesystem\<close>: mount the source when it is not a mount
  point, run the copy tool, unmount the source again. The copy tool's return code is
  read by \<open>wait()\<close> and not looked at.
\<close>

definition copy_contents :: "environment \<Rightarrow> string \<Rightarrow> string \<Rightarrow> stmt" where
  "copy_contents env source temp_mount m =
     (let rsync_cmd = [''sudo'', ''rsync'', ''-avh'', ''--progress'', ''--exclude'', ''/lost+found'',
                       source @ '':/'', temp_mount @ ''/''];
          source_temp = ''/mnt/temp_source''
      in case (if \<not> ismount env source
               then (case seq (os_call env (Makedirs source_temp))
                              (run_checked env [''sudo'', ''mount'', source, source_temp]) m of
                       (Some e, m1) \<Rightarrow> (Some e, False, rsync_cmd, m1)
                     | (None, m1) \<Rightarrow>
                         (None, True,
                          rsync_cmd[length rsync_cmd - 2 := source_temp @ ''/''], m1))
               else (None, False, rsync_cmd, m)) of
           (Some e, source_mounted, cmd, m1) \<Rightarrow> (Some e, m1)
         | (None, source_mounted, cmd, m1) \<Rightarrow>
             (case perform env (Popen_wait cmd) m1 of
                (Raised e, m2) \<Rightarrow> (Some e, m2)
              | (Exited rc out, m2) \<Rightarrow>
                  if source_mounted then run_checked env [''sudo'', ''umount'', source_temp] m2
                  else (None, m2)))"

definition clone_filesystem :: "environment \<Rightarrow> string \<Rightarrow> string \<Rightarrow> string \<Rightarrow> stmt" where
  "clone_filesystem env source dest fstype =
     (let temp_mount = ''/mnt/temp_clone'' in
      seq (case map_of (mkfs_cmd dest) fstype of
             Some cmd \<Rightarrow> run_checked env (''sudo'' # cmd)
           | None \<Rightarrow> skip)
     (seq (os_call env (Makedirs temp_mount))
     (seq (run_checked env [''sudo'', ''mount'', dest, temp_mount])
          (try_finally (copy_contents env source temp_mount)
             (seq (run_checked env [''sudo'', ''umount'', temp_mount])
                  (os_call env (Rmdir temp_mount)))))))"

text \<open>
  The test \<open>fstype in ['ext4', 'fat32', 'vfat', 'ntfs', 'exfat']\<close> of
  \<open>clone_with_rsync\<close>, which chooses between \<open>clone_filesystem\<close> and \<open>raw_clone\<close>.
\<close>

datatype strategy = FilesystemAware | RawBlockCopy

definition select_strategy :: "string \<Rightarrow> strategy" where
  "select_strategy fstype =
     (if fstype \<in> set [''ext4'', ''fat32'', ''vfat'', ''ntfs'', ''exfat'']
      then FilesystemAware else RawBlockCopy)"

text \<open>
  The body of the loop over the source's partitions. \<open>part.name[-1]\<close> is the last
  character of the path; on an empty name Python raises \<open>IndexError\<close>.
\<close>

definition clone_partition :: "environment \<Rightarrow> string \<Rightarrow> string \<Rightarrow> stmt" where
  "clone_partition env dest part m =
     (case part of
        [] \<Rightarrow> (Some (Error ''IndexError''), m)
      | _ # _ \<Rightarrow>
          (let part_num = [last part];
               dest_part = dest @ part_num
           in case get_filesystem_type env part m of (fstype, m1) \<Rightarrow>
                (case select_strategy fstype of
                   FilesystemAware \<Rightarrow> clone_filesystem env part dest_part fstype m1
                 | RawBlockCopy \<Rightarrow> raw_clone env part dest_part m1)))"

fun clone_partitions :: "environment \<Rightarrow> string \<Rightarrow> string list \<Rightarrow> stmt" where
  "clone_partitions env dest [] = skip"
| "clone_partitions env dest (part # parts) =
     seq (clone_partition env dest part) (clone_partitions env dest parts)"

definition basename :: "string \<Rightarrow> string" where
  "basename p = rev (takeWhile (\<lambda>c. c \<noteq> CHR ''/'') (rev p))"

text \<open>
  \<open>clone_with_rsync\<close>. The module constant \<open>TEST_MODE\<close> is a parameter; the program
  ships with \<open>TEST_MODE = True\<close>, where the function only prints and sleeps.
\<close>

definition clone_with_rsync :: "bool \<Rightarrow> environment \<Rightarrow> string \<Rightarrow> string \<Rightarrow> stmt" where
  "clone_with_rsync test_mode env source dest =
     (if test_mode then skip
      else seq (run_checked env [''sudo'', ''sgdisk'', ''-R'', dest, source])
          (seq (run_checked env [''sudo'', ''partprobe'', dest])
               (clone_partitions env dest (dev_glob env (basename source @ ''[0-9]*'')))))"

text \<open>
  \<open>start_clone\<close>. Every exception of the clone is caught, so the function returns.
  Writing the log file is taken to succeed.
\<close>

definition start_clone :: "bool \<Rightarrow> environment \<Rightarrow> string \<Rightarrow> string \<Rightarrow> machine \<Rightarrow> machine" where
  "start_clone test_mode env source dest m =
     (let m1 = write_log (Starting_clone source dest) m;
          m2 = gpio_output LED_CLONING True m1;
          m3 = gpio_output LED_READY False m2;
          m4 = (case clone_with_rsync test_mode env source dest m3 of
                  (None, m') \<Rightarrow> gpio_output LED_DONE True (led_off_all (write_log Clone_completed m'))
                | (Some e, m') \<Rightarrow> mock_error_pattern (write_log (Clone_failed e) m'))
      in led_off_all m4)"

text \<open>
  \<open>detect_devices\<close> of the mock: the three sample devices in test mode; otherwise the
  loop over \<open>/sys/block\<close> returns the empty list at its first directory, or after it
  (\<open>/sys/block\<close> is taken to exist).
\<close>

definition mock_detect_devices :: "bool \<Rightarrow> mock_device_info list" where
  "mock_detect_devices test_mode =
     (if test_mode then
        [\<lparr>device = ''/dev/disk/by-id/usb-Test_Flash_123456-0:0'', name = ''sdc'',
          size_gb = 32, model = ''USB_Flash_Drive'', serial = ''123456''\<rparr>,
         \<lparr>device = ''/dev/disk/by-id/usb-Backup_Plus_789012-0:1'', name = ''sdd'',
          size_gb = 1000, model = ''Backup_Plus_HDD'', serial = ''789012''\<rparr>,
         \<lparr>device = ''/dev/disk/by-id/usb-SD_Card_Reader_345678-0:0'', name = ''sde'',
          size_gb = 64, model = ''SD_Card_Reader'', serial = ''345678''\<rparr>]
      else [])"

section \<open>Cloning in the production program (sdcc\_cloner.py)\<close>

text \<open>
  \<open>clone_device\<close>: the \<open>try\<close> block, then the handler, which logs, shows the error
  pattern and raises the exception again.
\<close>

definition dd_cmd :: "string \<Rightarrow> string \<Rightarrow> string list" where
  "dd_cmd source dest =
     [''sudo'', ''dd'', ''if='' @ source, ''of='' @ dest, ''bs=4M'', ''status=progress'', ''conv=fsync'']"

definition clone_device_try :: "environment \<Rightarrow> string \<Rightarrow> string \<Rightarrow> stmt" where
  "clone_device_try env source dest m =
     (let m1 = led_on LED_CLONING (led_off_all m);
          cmd = dd_cmd source dest
      in case perform env (Popen_wait cmd) m1 of
           (Raised e, m2) \<Rightarrow> (Some e, m2)
         | (Exited rc out, m2) \<Rightarrow>
             if rc \<noteq> 0 then (Some (CalledProcessError rc cmd), m2)
             else (case os_call env Sync m2 of
                     (Some e, m3) \<Rightarrow> (Some e, m3)
                   | (None, m3) \<Rightarrow>
                       (None, led_on LED_DONE (led_off LED_CLONING (write_log Clone_completed m3)))))"

definition clone_device :: "environment \<Rightarrow> device_info \<Rightarrow> device_info \<Rightarrow> stmt" where
  "clone_device env source dest m =
     (case clone_device_try env (device source) (device dest)
             (write_log (Starting_clone (device source) (device dest)) m) of
        (None, m') \<Rightarrow> (None, m')
      | (Some e, m') \<Rightarrow> (Some e, error_pattern (write_log (Clone_failed e) m')))"

section \<open>Mount points\<close>

text \<open>
  The mount points in use after a history of actions, as \<open>mount\<close> and \<open>umount\<close> leave
  them: \<open>sudo mount dev dir\<close> exiting with 0 mounts \<open>dir\<close>, \<open>sudo umount dir\<close> exiting
  with 0 releases it, and a call that raises or exits with another code changes nothing.
\<close>

definition apply_mount :: "string list \<Rightarrow> action \<times> outcome \<Rightarrow> string list" where
  "apply_mount dirs ao =
     (case ao of
        (Run argv, Exited rc out) \<Rightarrow>
          if rc = 0 \<and> length argv = 4 \<and> take 2 argv = [''sudo'', ''mount'']
          then dirs @ [argv ! 3]
          else if rc = 0 \<and> length argv = 3 \<and> take 2 argv = [''sudo'', ''umount'']
          then remove1 (argv ! 2) dirs
          else dirs
      | _ \<Rightarrow> dirs)"

definition mounted :: "(action \<times> outcome) list \<Rightarrow> string list" where
  "mounted h = foldl apply_mount [] h"

section \<open>The main loops\<close>

text \<open>
  One reading of the outside world by the loop: whether \<open>time.time() % 2 < 0.5\<close>,
  whether the button pin reads \<open>LOW\<close> (the button is pressed), and the devices attached
  at that moment. The loops never end by themselves; the model runs them on the finite
  sequence of readings observed and returns the machine reached when the readings end.
\<close>

record tick =
  blink_phase :: bool
  button_low :: bool
  attached :: sysfs

text \<open>
  How the body of \<open>if GPIO.input(BTN_PIN) == GPIO.LOW\<close> ends in the production loop:
  by a \<open>continue\<close>, which goes back to the head of the loop, or by reaching the wait for
  the button's release.
\<close>

datatype ending = Continue | Wait_release

text \<open>The \<open>try\<close> block of the production loop with its handler.\<close>

definition detect_and_clone :: "environment \<Rightarrow> sysfs \<Rightarrow> machine \<Rightarrow> ending \<times> machine" where
  "detect_and_clone env fs m =
     (let devices = detect_devices fs in
      if devices = [] then (Continue, error_pattern (write_log No_devices_found m))
      else
        (case identify_source_dest devices of
           (Some source, Some dest) \<Rightarrow>
             if \<not> validate_clone source dest then (Continue, error_pattern m)
             else
               (case clone_device env source dest m of
                  (None, m') \<Rightarrow> (Wait_release, m')
                | (Some e, m') \<Rightarrow> (Wait_release, error_pattern (write_log (Error_logged e) m')))
         | _ \<Rightarrow> (Continue, error_pattern (write_log Could_not_identify m))))"

text \<open>
  The wait for release reads the button until it is no longer low; the reading that
  ends the wait is used up by it.
\<close>

definition wait_release :: "tick list \<Rightarrow> tick list" where
  "wait_release ts = drop 1 (dropWhile button_low ts)"

function main_loop :: "environment \<Rightarrow> tick list \<Rightarrow> machine \<Rightarrow> machine" where
  "main_loop env [] m = m"
| "main_loop env (t # ts) m =
     (let m1 = (if blink_phase t then blink_ready m else led_off LED_READY m) in
      if button_low t then
        (let m2 = led_on LED_READY (led_off_all (write_log Button_pressed m1));
             r = detect_and_clone env (attached t) m2
         in if fst r = Continue then main_loop env ts (snd r)
            else main_loop env (wait_release ts) (snd r))
      else main_loop env ts m1)"
  by pat_completeness auto
termination
  by (relation "measure (\<lambda>(env, ts, m). length ts)")
     (auto simp: wait_release_def intro: le_imp_less_Suc order_trans[OF diff_le_self length_dropWhile_le])

text \<open>
  The mock's loop; \<open>button_pressed\<close> is its local flag. \<open>validate_clone\<close> answers
  \<open>True\<close> only for two paths, so \<open>start_clone\<close> is always called with two strings.
\<close>

definition mock_attempt :: "bool \<Rightarrow> environment \<Rightarrow> machine \<Rightarrow> machine" where
  "mock_attempt test_mode env m =
     (let devices = mock_detect_devices test_mode in
      if length devices \<ge> 2 then
        (case mock_identify_source_dest devices of (source, dest) \<Rightarrow>
         (case mock_validate_clone env source dest m of ((valid, msg), m1) \<Rightarrow>
            if valid then
              (case (source, dest) of
                 (Some src, Some dst) \<Rightarrow> start_clone test_mode env src dst m1
               | _ \<Rightarrow> m1)
            else mock_error_pattern (write_log (Validation_failed msg) m1)))
      else mock_error_pattern (write_log (Need_2_devices (length devices)) m))"

function mock_main_loop :: "bool \<Rightarrow> environment \<Rightarrow> tick list \<Rightarrow> bool \<Rightarrow> machine \<Rightarrow> machine" where
  "mock_main_loop test_mode env [] button_pressed m = m"
| "mock_main_loop test_mode env (t # ts) button_pressed m =
     (let m1 = (if blink_phase t then mock_blink_ready m else gpio_output LED_READY False m) in
      if button_low t \<and> \<not> button_pressed then
        (let m2 = gpio_output LED_READY True (led_off_all (write_log Button_pressed m1));
             m3 = mock_attempt test_mode env m2
         in if \<not> test_mode then mock_main_loop test_mode env (wait_release ts) False m3
            else mock_main_loop test_mode env ts False m3)
      else mock_main_loop test_mode env ts button_pressed m1)"
  by pat_completeness auto
termination
  by (relation "measure (\<lambda>(test_mode, env, ts, b, m). length ts)")
     (auto simp: wait_release_def intro: le_imp_less_Suc order_trans[OF diff_le_self length_dropWhile_le])

text \<open>The number of times a loop went from Ready to Detecting.\<close>

definition attempts :: "machine \<Rightarrow> nat" where
  "attempts m = length (filter (\<lambda>l. l = Button_pressed) (journal m))"

section \<open>Notions the properties speak of\<close>



text \<open>
  The size of a device cannot be read: \<open>blockdev\<close> cannot be run, or what it prints is
  not a number.
\<close>

definition size_unreadable :: "environment \<Rightarrow> machine \<Rightarrow> string \<Rightarrow> bool" where
  "size_unreadable env m dev =
     (case respond env (history m) (Run [''sudo'', ''blockdev'', ''--getsize64'', dev]) of
        Raised e \<Rightarrow> True
      | Exited rc out \<Rightarrow> py_int (py_strip out) = None)"

text \<open>A device has a by-id alias when a link of \<open>/dev/disk/by-id\<close> resolves to its node.\<close>

definition by_id_aliases :: "sysfs \<Rightarrow> string \<Rightarrow> string list" where
  "by_id_aliases fs kname =
     map (\<lambda>(link, target). ''/dev/disk/by-id/'' @ link)
         (filter (\<lambda>(link, target). target = ''/dev/'' @ kname) (by_id fs))"

text \<open>
  The sizes the mock's \<open>validate_clone\<close> compares: \<open>get_device_size\<close> of the source, and
  then \<open>get_device_size\<close> of the destination.
\<close>

definition read_source_size :: "environment \<Rightarrow> string \<Rightarrow> machine \<Rightarrow> int" where
  "read_source_size env src m = fst (get_device_size env src m)"

definition read_dest_size :: "environment \<Rightarrow> string \<Rightarrow> string \<Rightarrow> machine \<Rightarrow> int" where
  "read_dest_size env src dst m = fst (get_device_size env dst (snd (get_device_size env src m)))"

section \<open>Sample environments\<close>

text \<open>
  Two sticks as the mock's \<open>blockdev\<close> calls see them: \<open>/dev/sdc\<close> of 64000000 bytes
  and any other device of 32000000 bytes.
\<close>

definition two_sticks :: environment where
  "two_sticks =
     \<lparr>respond = (\<lambda>h a. if a = Run [''sudo'', ''blockdev'', ''--getsize64'', ''/dev/sdc'']
                        then Exited 0 ''64000000''
                        else Exited 0 ''32000000''),
      ismount = (\<lambda>p. False),
      dev_glob = (\<lambda>p. [])\<rparr>"

text \<open>The same, but \<open>blockdev\<close> fails on \<open>/dev/sdc\<close> and prints nothing.\<close>

definition unreadable_stick :: environment where
  "unreadable_stick =
     \<lparr>respond = (\<lambda>h a. if a = Run [''sudo'', ''blockdev'', ''--getsize64'', ''/dev/sdc'']
                        then Exited 1 []
                        else Exited 0 ''32000000''),
      ismount = (\<lambda>p. False),
      dev_glob = (\<lambda>p. [])\<rparr>"

text \<open>
  A card reader as \<open>detect_devices\<close> finds it: the kernel device \<open>sdb\<close> with 62333952
  sectors (a card sold as 32 GB), and one by-id link that resolves to it.
\<close>

definition card_reader :: sysfs where
  "card_reader =
     \<lparr>sys_block = Some [\<lparr>entry_name = ''sdb'', is_dir = True,
                          size_text = Some ''62333952'', model_text = Some ''SD Reader''\<rparr>],
      by_id = [(''usb-Generic_SD_Reader_1234-0:0'', ''/dev/sdb'')]\<rparr>"

text \<open>The same reader with a link whose name ends with the kernel name.\<close>

definition card_reader_suffix :: sysfs where
  "card_reader_suffix =
     \<lparr>sys_block = Some [\<lparr>entry_name = ''sdb'', is_dir = True,
                          size_text = Some ''62333952'', model_text = Some ''SD Reader''\<rparr>],
      by_id = [(''usb-Generic_SD_Reader_1234-sdb'', ''/dev/sdb'')]\<rparr>"

text \<open>
  Environments for a source \<open>/dev/sdc\<close> with two ext4 partitions, none of them mounted.
  In \<open>all_succeed\<close> every call succeeds. In \<open>copy_exits_23\<close> the copy tool, the only
  process started with \<open>Popen\<close>, exits with code 23 (rsync's partial transfer). In
  \<open>copy_raises\<close> starting it, or reading its output, raises.
\<close>

definition all_succeed :: environment where
  "all_succeed =
     \<lparr>respond = (\<lambda>h a. case a of
                   Run argv \<Rightarrow> if ''blkid'' \<in> set argv then Exited 0 ''ext4'' else Exited 0 []
                 | _ \<Rightarrow> Exited 0 []),
      ismount = (\<lambda>p. False),
      dev_glob = (\<lambda>p. [''/dev/sdc1'', ''/dev/sdc2''])\<rparr>"

definition copy_exits_23 :: environment where
  "copy_exits_23 =
     \<lparr>respond = (\<lambda>h a. case a of
                   Run argv \<Rightarrow> if ''blkid'' \<in> set argv then Exited 0 ''ext4'' else Exited 0 []
                 | Popen_wait argv \<Rightarrow> Exited 23 []
                 | _ \<Rightarrow> Exited 0 []),
      ismount = (\<lambda>p. False),
      dev_glob = (\<lambda>p. [''/dev/sdc1'', ''/dev/sdc2''])\<rparr>"

definition copy_raises :: environment where
  "copy_raises =
     \<lparr>respond = (\<lambda>h a. case a of
                   Run argv \<Rightarrow> if ''blkid'' \<in> set argv then Exited 0 ''ext4'' else Exited 0 []
                 | Popen_wait argv \<Rightarrow> Raised (Error ''OSError'')
                 | _ \<Rightarrow> Exited 0 []),
      ismount = (\<lambda>p. False),
      dev_glob = (\<lambda>p. [''/dev/sdc1'', ''/dev/sdc2''])\<rparr>"

text \<open>What the production loop finds attached: nothing, or two cards.\<close>

definition no_devices :: sysfs where
  "no_devices = \<lparr>sys_block = Some [], by_id = []\<rparr>"

definition two_cards :: sysfs where
  "two_cards =
     \<lparr>sys_block = Some [\<lparr>entry_name = ''sdb'', is_dir = True,
                          size_text = Some ''62333952'', model_text = None\<rparr>,
                         \<lparr>entry_name = ''sdc'', is_dir = True,
                          size_text = Some ''125000000'', model_text = None\<rparr>],
      by_id = []\<rparr>"

text \<open>
  Readings of the loop: the button held down, the button released, and the button
  released in the half second in which the ready light blinks.
\<close>

definition pressed :: "sysfs \<Rightarrow> tick" where
  "pressed fs = \<lparr>blink_phase = False, button_low = True, attached = fs\<rparr>"

definition released :: "sysfs \<Rightarrow> tick" where
  "released fs = \<lparr>blink_phase = False, button_low = False, attached = fs\<rparr>"

definition released_blink :: "sysfs \<Rightarrow> tick" where
  "released_blink fs = \<lparr>blink_phase = True, button_low = False, attached = fs\<rparr>"

section \<open>Properties of classification\<close>

lemma sort_key_hd_least:
  assumes "xs \<noteq> []"
  shows "hd (sort_key f xs) \<in> set xs \<and> (\<forall>x\<in>set xs. f (hd (sort_key f xs)) \<le> f x)"
proof -
  obtain y ys where ys: "sort_key f xs = y # ys"
    using assms by (cases "sort_key f xs") (auto dest: arg_cong[where f=length])
  have "sorted (map f (y # ys))" using sorted_sort_key[of f xs] ys by simp
  moreover have "set (y # ys) = set xs" using set_sort[of f xs] ys by simp
  ultimately show ?thesis using ys by auto
qed

lemma sort_key_last_greatest:
  assumes "xs \<noteq> []"
  shows "last (sort_key f xs) \<in> set xs \<and> (\<forall>x\<in>set xs. f x \<le> f (last (sort_key f xs)))"
proof -
  let ?ys = "sort_key f xs"
  have ne: "?ys \<noteq> []" using assms by (auto dest: arg_cong[where f=length])
  then have split: "?ys = butlast ?ys @ [last ?ys]" by simp
  have "sorted (map f (butlast ?ys @ [last ?ys]))" using sorted_sort_key[of f xs] split by simp
  then have "\<forall>x\<in>set (butlast ?ys). f x \<le> f (last ?ys)"
    by (simp add: sorted_append)
  moreover have "set ?ys = set (butlast ?ys) \<union> {last ?ys}" using split
    by (metis list.set(1) list.simps(15) set_append Un_insert_right sup_bot.right_neutral)
  moreover have "set ?ys = set xs" by simp
  ultimately show ?thesis by auto
qed

lemma identify_source_dest_char:
  fixes devices :: "'a device_info_scheme list"
  assumes len: "2 \<le> length devices" and inj: "inj_on size_gb (set devices)"
    and s: "s \<in> set devices" "\<forall>x\<in>set devices. size_gb s \<le> size_gb x"
    and d: "d \<in> set devices" "\<forall>x\<in>set devices. size_gb x \<le> size_gb d"
  shows "identify_source_dest devices = (Some s, Some d)"
    and "mock_identify_source_dest devices = (Some (device s), Some (device d))"
proof -
  have ne: "devices \<noteq> []" using len by auto
  have "hd (sort_key size_gb devices) = s"
  proof -
    have "size_gb (hd (sort_key size_gb devices)) = size_gb s"
      using sort_key_hd_least[OF ne, of size_gb] s by (meson antisym)
    then show ?thesis using inj s(1) sort_key_hd_least[OF ne, of size_gb] by (auto dest: inj_onD)
  qed
  moreover have "last (sort_key size_gb devices) = d"
  proof -
    have "size_gb (last (sort_key size_gb devices)) = size_gb d"
      using sort_key_last_greatest[OF ne, of size_gb] d by (meson antisym)
    then show ?thesis using inj d(1) sort_key_last_greatest[OF ne, of size_gb] by (auto dest: inj_onD)
  qed
  ultimately show "identify_source_dest devices = (Some s, Some d)"
    and "mock_identify_source_dest devices = (Some (device s), Some (device d))"
    using len by (simp_all add: identify_source_dest_def mock_identify_source_dest_def)
qed

text \<open>
  C1. For a list of at least two devices with pairwise distinct sizes there are a device
  \<open>s\<close> of minimum size and a device \<open>d\<close> of maximum size in the list such that both
  variants of \<open>identify_source_dest\<close> return \<open>s\<close> as source and \<open>d\<close> as destination (the
  mock returns their paths) on every permutation of the list, the list itself included.
\<close>

theorem identify_source_dest_min_max:
  fixes devices :: "'a device_info_scheme list"
  assumes len: "2 \<le> length devices" and dist: "distinct (map size_gb devices)"
  shows "\<exists>s d. s \<in> set devices \<and> d \<in> set devices
           \<and> size_gb s = Min (size_gb ` set devices)
           \<and> size_gb d = Max (size_gb ` set devices)
           \<and> (\<forall>devices'. mset devices' = mset devices \<longrightarrow>
                 identify_source_dest devices' = (Some s, Some d)
               \<and> mock_identify_source_dest devices' = (Some (device s), Some (device d)))"
proof -
  have ne: "devices \<noteq> []" using len by auto
  define s where "s = hd (sort_key size_gb devices)"
  define d where "d = last (sort_key size_gb devices)"
  have s: "s \<in> set devices" "\<forall>x\<in>set devices. size_gb s \<le> size_gb x"
    using sort_key_hd_least[OF ne, of size_gb] by (simp_all add: s_def)
  have d: "d \<in> set devices" "\<forall>x\<in>set devices. size_gb x \<le> size_gb d"
    using sort_key_last_greatest[OF ne, of size_gb] by (simp_all add: d_def)
  have inj: "inj_on size_gb (set devices)" using dist by (simp add: distinct_map)
  have smin: "size_gb s = Min (size_gb ` set devices)"
    using s by (intro Min_eqI[symmetric]) auto
  have dmax: "size_gb d = Max (size_gb ` set devices)"
    using d by (intro Max_eqI[symmetric]) auto
  have perm: "identify_source_dest devices' = (Some s, Some d)
      \<and> mock_identify_source_dest devices' = (Some (device s), Some (device d))"
    if eq: "mset devices' = mset devices" for devices'
  proof -
    have set_eq: "set devices' = set devices" using eq by (rule mset_eq_setD)
    have len': "2 \<le> length devices'" using len mset_eq_length[OF eq] by simp
    show ?thesis
      using identify_source_dest_char[of devices' s d] len' inj s d set_eq by simp
  qed
  show ?thesis using s(1) d(1) smin dmax perm by blast
qed

theorem identify_source_dest_min_max_witness:
  "2 \<le> length (mock_detect_devices True)
   \<and> distinct (map size_gb (mock_detect_devices True))
   \<and> (\<exists>s d. size_gb s = 32 \<and> size_gb d = 1000
        \<and> identify_source_dest (mock_detect_devices True) = (Some s, Some d)
        \<and> identify_source_dest (rev (mock_detect_devices True)) = (Some s, Some d)
        \<and> mock_identify_source_dest (rev (mock_detect_devices True))
            = (Some (device s), Some (device d)))"
proof -
  let ?ds = "mock_detect_devices True"
  have h1: "2 \<le> length ?ds" by (simp add: mock_detect_devices_def)
  have h2: "distinct (map size_gb ?ds)" by (simp add: mock_detect_devices_def)
  obtain s d where sd: "size_gb s = Min (size_gb ` set ?ds)" "size_gb d = Max (size_gb ` set ?ds)"
    and perm: "\<And>devices'. mset devices' = mset ?ds \<Longrightarrow>
                 identify_source_dest devices' = (Some s, Some d)
               \<and> mock_identify_source_dest devices' = (Some (device s), Some (device d))"
    using identify_source_dest_min_max[OF h1 h2] by blast
  have "size_gb s = 32" "size_gb d = 1000"
    using sd by (simp_all add: mock_detect_devices_def)
  moreover have "mset (rev ?ds) = mset ?ds" by simp
  ultimately show ?thesis using h1 h2 perm[of ?ds] perm[of "rev ?ds"] by blast
qed

section \<open>Properties of validation and of the choice of strategy\<close>

lemmas string_eval = py_int_def py_strip_def is_space_def py_digits_def is_digit_def
  digit_val_def py_lower_def py_lower_char_def startswith_def endswith_def

lemmas size_eval = read_source_size_def read_dest_size_def get_device_size_def perform_def
  initial_def Let_def

text \<open>
  C4. The production \<open>validate_clone\<close> answers \<open>False\<close> exactly when the source's size is
  greater than the destination's, and \<open>True\<close> otherwise, equal sizes included. The mock's
  \<open>validate_clone\<close>, given the paths of a source and a destination, does the same with the
  sizes \<open>get_device_size\<close> reads for the two paths, the source's first.
\<close>

theorem validate_clone_iff_source_larger:
  "(validate_clone source dest = False \<longleftrightarrow> size_gb source > size_gb dest)
   \<and> (size_gb source = size_gb dest \<longrightarrow> validate_clone source dest = True)
   \<and> (src \<noteq> [] \<and> dst \<noteq> [] \<longrightarrow>
        (fst (fst (mock_validate_clone env (Some src) (Some dst) m)) = False
           \<longleftrightarrow> read_source_size env src m > read_dest_size env src dst m)
      \<and> (read_source_size env src m = read_dest_size env src dst m \<longrightarrow>
           fst (mock_validate_clone env (Some src) (Some dst) m) = (True, ''OK'')))"
  by (auto simp: validate_clone_def mock_validate_clone_def py_not_def
        read_source_size_def read_dest_size_def split: prod.splits)

theorem validate_clone_iff_source_larger_witness:
  "validate_clone (hd (mock_detect_devices True)) (hd (mock_detect_devices True)) = True
   \<and> validate_clone (last (mock_detect_devices True)) (hd (mock_detect_devices True)) = False
   \<and> fst (fst (mock_validate_clone two_sticks (Some ''/dev/sdc'') (Some ''/dev/sdd'') initial)) = False
   \<and> fst (mock_validate_clone two_sticks (Some ''/dev/sdd'') (Some ''/dev/sde'') initial) = (True, ''OK'')"
proof -
  have s1: "read_source_size two_sticks ''/dev/sdc'' initial = 64000000"
    by (simp add: size_eval two_sticks_def string_eval)
  have d1: "read_dest_size two_sticks ''/dev/sdc'' ''/dev/sdd'' initial = 32000000"
    by (simp add: size_eval two_sticks_def string_eval)
  have s2: "read_source_size two_sticks ''/dev/sdd'' initial = 32000000"
    by (simp add: size_eval two_sticks_def string_eval)
  have d2: "read_dest_size two_sticks ''/dev/sdd'' ''/dev/sde'' initial = 32000000"
    by (simp add: size_eval two_sticks_def string_eval)
  have sz: "size_gb (hd (mock_detect_devices True)) = 32"
    "size_gb (last (mock_detect_devices True)) = 64"
    by (simp_all add: mock_detect_devices_def)
  show ?thesis
    using validate_clone_iff_source_larger
            [of "hd (mock_detect_devices True)" "hd (mock_detect_devices True)"
                "''/dev/sdd''" "''/dev/sde''" two_sticks initial]
          validate_clone_iff_source_larger
            [of "last (mock_detect_devices True)" "hd (mock_detect_devices True)"
                "''/dev/sdc''" "''/dev/sdd''" two_sticks initial]
    by (simp add: s1 d1 s2 d2 sz)
qed

text \<open>
  C5. The filesystem types \<open>ext4\<close>, \<open>vfat\<close>, \<open>fat32\<close>, \<open>ntfs\<close> and \<open>exfat\<close> select the
  filesystem-aware clone, and every other string, the empty string and \<open>unknown\<close> among
  them, selects the raw block copy. The loop body of \<open>clone_with_rsync\<close> runs
  \<open>clone_filesystem\<close> on a partition in the first case and \<open>raw_clone\<close> in the second.
\<close>

theorem select_strategy_by_fstype:
  "(fstype \<in> {''ext4'', ''vfat'', ''fat32'', ''ntfs'', ''exfat''}
      \<longrightarrow> select_strategy fstype = FilesystemAware)
   \<and> (fstype \<notin> {''ext4'', ''vfat'', ''fat32'', ''ntfs'', ''exfat''}
      \<longrightarrow> select_strategy fstype = RawBlockCopy)
   \<and> select_strategy '''' = RawBlockCopy
   \<and> select_strategy ''unknown'' = RawBlockCopy
   \<and> (part \<noteq> [] \<longrightarrow>
        clone_partition env dest part m =
          (case get_filesystem_type env part m of (fstype', m1) \<Rightarrow>
             if fstype' \<in> {''ext4'', ''vfat'', ''fat32'', ''ntfs'', ''exfat''}
             then clone_filesystem env part (dest @ [last part]) fstype' m1
             else raw_clone env part (dest @ [last part]) m1))"
proof -
  have sel: "select_strategy f =
      (if f \<in> {''ext4'', ''vfat'', ''fat32'', ''ntfs'', ''exfat''} then FilesystemAware else RawBlockCopy)"
    for f
    unfolding select_strategy_def by auto
  have part: "part \<noteq> [] \<longrightarrow>
        clone_partition env dest part m =
          (case get_filesystem_type env part m of (fstype', m1) \<Rightarrow>
             if fstype' \<in> {''ext4'', ''vfat'', ''fat32'', ''ntfs'', ''exfat''}
             then clone_filesystem env part (dest @ [last part]) fstype' m1
             else raw_clone env part (dest @ [last part]) m1)"
    by (cases part) (simp_all add: clone_partition_def sel Let_def split: prod.splits)
  have e: "select_strategy '''' = RawBlockCopy" "select_strategy ''unknown'' = RawBlockCopy"
    by (simp_all add: select_strategy_def)
  show ?thesis using sel[of fstype] part e by simp
qed

theorem select_strategy_by_fstype_witness:
  "select_strategy ''vfat'' = FilesystemAware \<and> select_strategy ''btrfs'' = RawBlockCopy
   \<and> clone_partition two_sticks ''/dev/sdd'' ''/dev/sdc1'' initial
       = raw_clone two_sticks ''/dev/sdc1'' ''/dev/sdd1''
           (snd (get_filesystem_type two_sticks ''/dev/sdc1'' initial))"
proof -
  have ft: "fst (get_filesystem_type two_sticks ''/dev/sdc1'' initial) = ''32000000''"
    by (simp add: get_filesystem_type_def perform_def two_sticks_def initial_def Let_def string_eval)
  have ne: "''/dev/sdc1'' \<noteq> []" by simp
  show ?thesis
    using select_strategy_by_fstype[of "''vfat''" "''/dev/sdc1''" two_sticks "''/dev/sdd''" initial]
          select_strategy_by_fstype[of "''btrfs''" "''/dev/sdc1''" two_sticks "''/dev/sdd''" initial]
          ft ne
    by (simp add: split_def)
qed

text \<open>
  C10. In the mock, \<open>get_device_size\<close> returns 0 when \<open>blockdev\<close> cannot be run and when
  what it prints is not a number. So when the size of the source of a pair of paths
  cannot be read, and the size read for the destination is a byte count (not negative),
  \<open>validate_clone\<close> answers \<open>(True, "OK")\<close>.
\<close>

theorem unreadable_source_is_validated:
  "(size_unreadable env m dev \<longrightarrow> fst (get_device_size env dev m) = 0)
   \<and> (src \<noteq> [] \<and> dst \<noteq> [] \<and> size_unreadable env m src \<and> 0 \<le> read_dest_size env src dst m
        \<longrightarrow> fst (mock_validate_clone env (Some src) (Some dst) m) = (True, ''OK''))"
proof -
  have zero: "fst (get_device_size env d m) = 0" if "size_unreadable env m d" for d
    using that
    by (auto simp: size_unreadable_def get_device_size_def perform_def Let_def
          split: outcome.splits option.splits)
  show ?thesis
    using zero[of dev] zero[of src]
    by (auto simp: mock_validate_clone_def py_not_def read_dest_size_def split: prod.splits)
qed

theorem unreadable_source_is_validated_witness:
  "size_unreadable unreadable_stick initial ''/dev/sdc''
   \<and> fst (get_device_size unreadable_stick ''/dev/sdc'' initial) = 0
   \<and> fst (mock_validate_clone unreadable_stick (Some ''/dev/sdc'') (Some ''/dev/sdd'') initial)
       = (True, ''OK'')"
proof -
  have u: "size_unreadable unreadable_stick initial ''/dev/sdc''"
    by (simp add: size_unreadable_def unreadable_stick_def initial_def string_eval)
  have d: "read_dest_size unreadable_stick ''/dev/sdc'' ''/dev/sdd'' initial = 32000000"
    by (simp add: size_eval unreadable_stick_def string_eval)
  show ?thesis
    using unreadable_source_is_validated
            [of unreadable_stick initial "''/dev/sdc''" "''/dev/sdc''" "''/dev/sdd''"] u d
    by simp
qed

section \<open>Properties of device detection\<close>




lemma floor_numeral_quotient:
  "\<lfloor>(numeral a :: rat) / numeral b\<rfloor> = numeral a div numeral b"
  by (metis floor_divide_of_int_eq of_int_numeral)

lemmas detect_eval = floor_numeral_quotient detect_devices_def detect_entry_def List.map_filter_simps glob_by_id_def
  py_round2_def Let_def

lemma detect_card_reader:
  "detect_devices card_reader =
     [\<lparr>device = ''/dev/sdb'', name = ''sdb'', size_gb = 743 / 25, model = ''SD Reader''\<rparr>]"
  by (simp add: card_reader_def detect_eval string_eval)

lemma detect_card_reader_suffix:
  "detect_devices card_reader_suffix =
     [\<lparr>device = ''/dev/sdb'', name = ''sdb'', size_gb = 743 / 25, model = ''SD Reader''\<rparr>]"
  by (simp add: card_reader_suffix_def detect_eval string_eval)





text \<open>
  C7, evaluated. The reader has a by-id link, and the entry recorded for it carries the
  kernel path \<open>/dev/sdb\<close>: the link's name does not end with \<open>sdb\<close>, so the glob finds
  nothing; and where a link's name does end with \<open>sdb\<close>, \<open>resolve()\<close> turns the link
  into the kernel path again.
\<close>

theorem by_id_path_not_recorded:
  "by_id_aliases card_reader ''sdb'' = [''/dev/disk/by-id/usb-Generic_SD_Reader_1234-0:0'']
   \<and> map device (detect_devices card_reader) = [''/dev/sdb'']
   \<and> by_id_aliases card_reader_suffix ''sdb'' = [''/dev/disk/by-id/usb-Generic_SD_Reader_1234-sdb'']
   \<and> map device (detect_devices card_reader_suffix) = [''/dev/sdb'']"
  by (simp add: detect_card_reader detect_card_reader_suffix)
     (simp add: by_id_aliases_def card_reader_def card_reader_suffix_def)

section \<open>Properties of the clone\<close>

lemmas stmt_eval = seq_def skip_def try_finally_def perform_def run_checked_def
  run_shell_checked_def os_call_def initial_def Let_def

lemmas pin_eval = BTN_PIN_def LED_READY_def LED_CLONING_def LED_DONE_def gpio_output_def
  led_on_def led_off_def led_off_all_def blink_ready_def level_def lit_def write_log_def

lemma clone_filesystem_copy_raises:
  "clone_filesystem copy_raises ''/dev/sdc1'' ''/dev/sdd1'' ''ext4'' initial =
     (Some (Error ''OSError''),
      \<lparr>history =
         [(Run [''sudo'', ''mkfs.ext4'', ''-F'', ''/dev/sdd1''], Exited 0 []),
          (Makedirs ''/mnt/temp_clone'', Exited 0 []),
          (Run [''sudo'', ''mount'', ''/dev/sdd1'', ''/mnt/temp_clone''], Exited 0 []),
          (Makedirs ''/mnt/temp_source'', Exited 0 []),
          (Run [''sudo'', ''mount'', ''/dev/sdc1'', ''/mnt/temp_source''], Exited 0 []),
          (Popen_wait [''sudo'', ''rsync'', ''-avh'', ''--progress'', ''--exclude'',
                       ''/lost+found'', ''/mnt/temp_source/'', ''/mnt/temp_clone/''],
           Raised (Error ''OSError'')),
          (Run [''sudo'', ''umount'', ''/mnt/temp_clone''], Exited 0 []),
          (Rmdir ''/mnt/temp_clone'', Exited 0 [])],
       gpio = [], journal = []\<rparr>)"
  by (simp add: clone_filesystem_def copy_contents_def mkfs_cmd_def copy_raises_def stmt_eval)


lemmas mount_eval = mounted_def apply_mount_def

text \<open>
  C2, evaluated. The source is not mounted, every command succeeds, and the copy tool
  raises while it is started or read. \<open>clone_filesystem\<close> raises, having unmounted
  \<open>/mnt/temp_clone\<close> in its \<open>finally\<close> block, and leaves the source mounted on
  \<open>/mnt/temp_source\<close>: the unmount of the source stands in the \<open>try\<close> block, after
  the copy.
\<close>

theorem source_mount_left_behind:
  "fst (clone_filesystem copy_raises ''/dev/sdc1'' ''/dev/sdd1'' ''ext4'' initial)
     = Some (Error ''OSError'')
   \<and> mounted (history (snd (clone_filesystem copy_raises ''/dev/sdc1'' ''/dev/sdd1'' ''ext4'' initial)))
     = [''/mnt/temp_source'']"
  by (simp add: clone_filesystem_copy_raises mount_eval)

lemma clone_filesystem_copy_exits_23:
  "clone_filesystem copy_exits_23 ''/dev/sdc1'' ''/dev/sdd1'' ''ext4'' initial =
     (None,
      \<lparr>history =
         [(Run [''sudo'', ''mkfs.ext4'', ''-F'', ''/dev/sdd1''], Exited 0 []),
          (Makedirs ''/mnt/temp_clone'', Exited 0 []),
          (Run [''sudo'', ''mount'', ''/dev/sdd1'', ''/mnt/temp_clone''], Exited 0 []),
          (Makedirs ''/mnt/temp_source'', Exited 0 []),
          (Run [''sudo'', ''mount'', ''/dev/sdc1'', ''/mnt/temp_source''], Exited 0 []),
          (Popen_wait [''sudo'', ''rsync'', ''-avh'', ''--progress'', ''--exclude'',
                       ''/lost+found'', ''/mnt/temp_source/'', ''/mnt/temp_clone/''],
           Exited 23 []),
          (Run [''sudo'', ''umount'', ''/mnt/temp_source''], Exited 0 []),
          (Run [''sudo'', ''umount'', ''/mnt/temp_clone''], Exited 0 []),
          (Rmdir ''/mnt/temp_clone'', Exited 0 [])],
       gpio = [], journal = []\<rparr>)"
  by (simp add: clone_filesystem_def copy_contents_def mkfs_cmd_def copy_exits_23_def stmt_eval)

lemma clone_with_rsync_copy_exits_23:
  "fst (clone_with_rsync False copy_exits_23 ''/dev/sdc'' ''/dev/sdd'' initial) = None
   \<and> map fst (history (snd (clone_with_rsync False copy_exits_23 ''/dev/sdc'' ''/dev/sdd'' initial)))
     = [Run [''sudo'', ''sgdisk'', ''-R'', ''/dev/sdd'', ''/dev/sdc''],
        Run [''sudo'', ''partprobe'', ''/dev/sdd''],
        Run [''sudo'', ''blkid'', ''-s'', ''TYPE'', ''-o'', ''value'', ''/dev/sdc1''],
        Run [''sudo'', ''mkfs.ext4'', ''-F'', ''/dev/sdd1''],
        Makedirs ''/mnt/temp_clone'',
        Run [''sudo'', ''mount'', ''/dev/sdd1'', ''/mnt/temp_clone''],
        Makedirs ''/mnt/temp_source'',
        Run [''sudo'', ''mount'', ''/dev/sdc1'', ''/mnt/temp_source''],
        Popen_wait [''sudo'', ''rsync'', ''-avh'', ''--progress'', ''--exclude'',
                    ''/lost+found'', ''/mnt/temp_source/'', ''/mnt/temp_clone/''],
        Run [''sudo'', ''umount'', ''/mnt/temp_source''],
        Run [''sudo'', ''umount'', ''/mnt/temp_clone''],
        Rmdir ''/mnt/temp_clone'',
        Run [''sudo'', ''blkid'', ''-s'', ''TYPE'', ''-o'', ''value'', ''/dev/sdc2''],
        Run [''sudo'', ''mkfs.ext4'', ''-F'', ''/dev/sdd2''],
        Makedirs ''/mnt/temp_clone'',
        Run [''sudo'', ''mount'', ''/dev/sdd2'', ''/mnt/temp_clone''],
        Makedirs ''/mnt/temp_source'',
        Run [''sudo'', ''mount'', ''/dev/sdc2'', ''/mnt/temp_source''],
        Popen_wait [''sudo'', ''rsync'', ''-avh'', ''--progress'', ''--exclude'',
                    ''/lost+found'', ''/mnt/temp_source/'', ''/mnt/temp_clone/''],
        Run [''sudo'', ''umount'', ''/mnt/temp_source''],
        Run [''sudo'', ''umount'', ''/mnt/temp_clone''],
        Rmdir ''/mnt/temp_clone'']"
  by (simp add: clone_with_rsync_def clone_partition_def select_strategy_def
        get_filesystem_type_def basename_def clone_filesystem_def copy_contents_def mkfs_cmd_def
        copy_exits_23_def stmt_eval string_eval)

text \<open>
  C3, evaluated. The copy tool exits with code 23 on each partition and every other
  command succeeds. \<open>clone_filesystem\<close> returns without raising; \<open>clone_with_rsync\<close>
  goes on to the second partition and returns without raising; \<open>start_clone\<close> logs that
  the clone completed and shows the done light.
\<close>

theorem failed_copy_reported_as_success:
  "fst (clone_filesystem copy_exits_23 ''/dev/sdc1'' ''/dev/sdd1'' ''ext4'' initial) = None
   \<and> (Popen_wait [''sudo'', ''rsync'', ''-avh'', ''--progress'', ''--exclude'',
                   ''/lost+found'', ''/mnt/temp_source/'', ''/mnt/temp_clone/''], Exited 23 [])
       \<in> set (history (snd (clone_filesystem copy_exits_23 ''/dev/sdc1'' ''/dev/sdd1'' ''ext4'' initial)))
   \<and> fst (clone_with_rsync False copy_exits_23 ''/dev/sdc'' ''/dev/sdd'' initial) = None
   \<and> Run [''sudo'', ''mkfs.ext4'', ''-F'', ''/dev/sdd2'']
       \<in> set (map fst (history (snd (clone_with_rsync False copy_exits_23 ''/dev/sdc'' ''/dev/sdd'' initial))))
   \<and> journal (start_clone False copy_exits_23 ''/dev/sdc'' ''/dev/sdd'' initial)
       = [Starting_clone ''/dev/sdc'' ''/dev/sdd'', Clone_completed]
   \<and> [LED_DONE] \<in> set (lit_history (gpio (start_clone False copy_exits_23 ''/dev/sdc'' ''/dev/sdd'' initial)))"
proof -
  have a: "fst (clone_filesystem copy_exits_23 ''/dev/sdc1'' ''/dev/sdd1'' ''ext4'' initial) = None"
    by (simp add: clone_filesystem_copy_exits_23)
  have b: "(Popen_wait [''sudo'', ''rsync'', ''-avh'', ''--progress'', ''--exclude'',
                   ''/lost+found'', ''/mnt/temp_source/'', ''/mnt/temp_clone/''], Exited 23 [])
       \<in> set (history (snd (clone_filesystem copy_exits_23 ''/dev/sdc1'' ''/dev/sdd1'' ''ext4'' initial)))"
    by (simp add: clone_filesystem_copy_exits_23)
  have c: "fst (clone_with_rsync False copy_exits_23 ''/dev/sdc'' ''/dev/sdd'' initial) = None"
    using clone_with_rsync_copy_exits_23 by simp
  have d: "Run [''sudo'', ''mkfs.ext4'', ''-F'', ''/dev/sdd2'']
       \<in> set (map fst (history (snd (clone_with_rsync False copy_exits_23 ''/dev/sdc'' ''/dev/sdd'' initial))))"
    by (simp only: clone_with_rsync_copy_exits_23) simp
  obtain m where m: "clone_with_rsync False copy_exits_23 ''/dev/sdc'' ''/dev/sdd''
      (gpio_output LED_READY False (gpio_output LED_CLONING True
         (write_log (Starting_clone ''/dev/sdc'' ''/dev/sdd'') initial))) = (None, m)"
    and jm: "journal m = [Starting_clone ''/dev/sdc'' ''/dev/sdd'']"
    and gm: "gpio m = [(23, True), (22, False)]"
    by (simp add: clone_with_rsync_def clone_partition_def select_strategy_def
        get_filesystem_type_def basename_def clone_filesystem_def copy_contents_def mkfs_cmd_def
        copy_exits_23_def stmt_eval string_eval pin_eval)
  have e: "journal (start_clone False copy_exits_23 ''/dev/sdc'' ''/dev/sdd'' initial)
       = [Starting_clone ''/dev/sdc'' ''/dev/sdd'', Clone_completed]"
    by (simp only: start_clone_def Let_def m prod.case option.case) (simp add: pin_eval jm)
  have g: "gpio (start_clone False copy_exits_23 ''/dev/sdc'' ''/dev/sdd'' initial)
       = [(23, True), (22, False), (22, False), (23, False), (24, False), (24, True),
          (22, False), (23, False), (24, False)]"
    by (simp only: start_clone_def Let_def m prod.case option.case) (simp add: pin_eval gm)
  have f: "[LED_DONE] \<in> set (lit_history (gpio (start_clone False copy_exits_23 ''/dev/sdc'' ''/dev/sdd'' initial)))"
    unfolding g by (simp add: lit_history_def pin_eval upt_rec)
  show ?thesis using a b c d e f by blast
qed

section \<open>Properties of the main loops\<close>

lemma detect_two_cards:
  "detect_devices two_cards =
     [\<lparr>device = ''/dev/sdb'', name = ''sdb'', size_gb = 743 / 25, model = ''Unknown''\<rparr>,
      \<lparr>device = ''/dev/sdc'', name = ''sdc'', size_gb = 298 / 5, model = ''Unknown''\<rparr>]"
  by (simp add: two_cards_def detect_eval string_eval)

lemma identify_two_cards:
  "identify_source_dest (detect_devices two_cards) =
     (Some \<lparr>device = ''/dev/sdb'', name = ''sdb'', size_gb = 743 / 25, model = ''Unknown''\<rparr>,
      Some \<lparr>device = ''/dev/sdc'', name = ''sdc'', size_gb = 298 / 5, model = ''Unknown''\<rparr>)"
  by (simp add: detect_two_cards identify_source_dest_def)

lemma detect_two_cards_nonempty: "detect_devices two_cards \<noteq> []"
  by (simp add: detect_two_cards)

lemma detect_no_devices: "detect_devices no_devices = []"
  by (simp add: no_devices_def detect_eval)

lemmas loop_eval = eval_nat_numeral pressed_def released_def released_blink_def wait_release_def
  detect_and_clone_def validate_clone_def clone_device_def clone_device_try_def dd_cmd_def
  error_pattern_def mock_error_pattern_def mock_blink_ready_def

lemma press_two_cards:
  "main_loop all_succeed [pressed two_cards, released two_cards, released_blink two_cards] initial =
     \<lparr>history = [(Popen_wait (dd_cmd ''/dev/sdb'' ''/dev/sdc''), Exited 0 []), (Sync, Exited 0 [])],
      gpio = [(22, False), (22, False), (23, False), (24, False), (22, True),
              (22, False), (23, False), (24, False), (23, True), (23, False), (24, True),
              (22, True)],
      journal = [Button_pressed, Starting_clone ''/dev/sdb'' ''/dev/sdc'', Clone_completed]\<rparr>"
  by (simp add: loop_eval identify_two_cards detect_two_cards_nonempty all_succeed_def
        stmt_eval pin_eval)

text \<open>
  C9, evaluated. In the production program one press with two cards attached clones
  successfully; the done light is switched on and never off, so when the loop is back in
  Ready and blinks the ready light, both lights are on. In the mock, \<open>start_clone\<close>
  switches the cloning light on before the ready light of Detecting is switched off, so
  both are on between the two outputs.
\<close>

theorem two_lights_on_at_once:
  "journal (main_loop all_succeed
              [pressed two_cards, released two_cards, released_blink two_cards] initial)
     = [Button_pressed, Starting_clone ''/dev/sdb'' ''/dev/sdc'', Clone_completed]
   \<and> lit (gpio (main_loop all_succeed
                   [pressed two_cards, released two_cards, released_blink two_cards] initial))
     = [LED_READY, LED_DONE]
   \<and> [LED_READY, LED_CLONING]
       \<in> set (lit_history (gpio (mock_main_loop True all_succeed [pressed no_devices] False initial)))"
proof -
  have a: "lit [(22, False), (22, False), (23, False), (24, False), (22, True),
              (22, False), (23, False), (24, False), (23, True), (23, False), (24, True),
              (22, True)] = [LED_READY, LED_DONE]"
    by (simp add: pin_eval)
  have g: "gpio (mock_main_loop True all_succeed [pressed no_devices] False initial)
      = [(22, False), (22, False), (23, False), (24, False), (22, True),
         (23, True), (22, False),
         (22, False), (23, False), (24, False), (24, True),
         (22, False), (23, False), (24, False)]"
    by (simp add: loop_eval mock_attempt_def mock_detect_devices_def mock_identify_source_dest_def
          mock_validate_clone_def py_not_def get_device_size_def start_clone_def
          clone_with_rsync_def all_succeed_def stmt_eval pin_eval string_eval)
  have b: "[LED_READY, LED_CLONING]
       \<in> set (lit_history (gpio (mock_main_loop True all_succeed [pressed no_devices] False initial)))"
    unfolding g by (simp add: lit_history_def pin_eval upt_rec)
  have j: "journal (main_loop all_succeed
              [pressed two_cards, released two_cards, released_blink two_cards] initial)
     = [Button_pressed, Starting_clone ''/dev/sdb'' ''/dev/sdc'', Clone_completed]"
    unfolding press_two_cards by simp
  have l: "lit (gpio (main_loop all_succeed
                   [pressed two_cards, released two_cards, released_blink two_cards] initial))
     = [LED_READY, LED_DONE]"
    unfolding press_two_cards using a by simp
  show ?thesis using j l b by blast
qed


text \<open>
  The production loop on a held button with nothing attached: each iteration ends with
  \<open>continue\<close>, before the wait for release, and the next one starts a new attempt.
\<close>

lemma held_button_without_devices:
  "attempts (main_loop all_succeed [pressed no_devices, pressed no_devices, pressed no_devices] initial) = 3"
  by (simp add: loop_eval detect_no_devices attempts_def stmt_eval pin_eval)



lemma journal_gpio_output [simp]: "journal (gpio_output pin v m) = journal m"
  by (simp add: gpio_output_def)

lemma journal_led [simp]:
  "journal (led_on pin m) = journal m"
  "journal (led_off pin m) = journal m"
  "journal (led_off_all m) = journal m"
  "journal (blink_ready m) = journal m"
  "journal (mock_blink_ready m) = journal m"
  by (simp_all add: led_on_def led_off_def led_off_all_def blink_ready_def mock_blink_ready_def)

lemma journal_funpow:
  fixes f :: "machine \<Rightarrow> machine"
  assumes "\<And>m. journal (f m) = journal m"
  shows "journal ((f ^^ n) m) = journal m"
proof (induction n)
  case 0
  show ?case by simp
next
  case (Suc n)
  have "journal ((f ^^ Suc n) m) = journal (f ((f ^^ n) m))" by simp
  also have "\<dots> = journal ((f ^^ n) m)" by (rule assms)
  finally show ?case using Suc by simp
qed

lemma journal_error_pattern [simp]:
  "journal (error_pattern m) = journal m"
  "journal (mock_error_pattern m) = journal m"
  by (simp_all add: error_pattern_def mock_error_pattern_def journal_funpow)











lemma attempts_error_pattern [simp]:
  "attempts (error_pattern m) = attempts m"
  "attempts (mock_error_pattern m) = attempts m"
  by (simp_all add: attempts_def)

lemma attempts_leds [simp]:
  "attempts (gpio_output pin v m) = attempts m"
  "attempts (led_on pin m) = attempts m"
  "attempts (led_off pin m) = attempts m"
  "attempts (led_off_all m) = attempts m"
  "attempts (blink_ready m) = attempts m"
  "attempts (mock_blink_ready m) = attempts m"
  by (simp_all add: attempts_def)












end
